theory Spec2Isabelle
  imports Complex_Main "HOL-Library.AList" "HOL-Library.Multiset"
begin

section \<open>Python values and exceptions\<close>

text \<open>
  The values that flow through the pipeline are the JSON-like values of a pydantic
  \<^verbatim>\<open>model_dump()\<close>: \<^verbatim>\<open>None\<close>, booleans, integers, strings, lists and
  string-keyed dicts. A dict is an association list in insertion order (Python dicts keep
  insertion order); floats do not occur in the model.
\<close>

datatype pyval =
    PNone
  | PBool bool
  | PInt int
  | PStr string
  | PList "pyval list"
  | PDict "(string \<times> pyval) list"

type_synonym pydict = "(string \<times> pyval) list"

text \<open>
  Exceptions are values. \<open>ValueError msg\<close> is \<^verbatim>\<open>ValueError(msg)\<close> with a literal
  message; \<open>ValueErrorFrom prefix e\<close> is \<^verbatim>\<open>ValueError(f"{prefix}{str(e)}")\<close> raised
  from inside an \<^verbatim>\<open>except Exception as e\<close> block. \<open>IncompleteOutputException c\<close>
  is instructor's exception whose \<^verbatim>\<open>last_completion.choices[0].message.content\<close> is
  \<open>c\<close>; \<open>TransportError\<close> stands for every other failure of the provider call and
  \<open>ValidationError\<close> for a failed pydantic validation.
\<close>

datatype error =
    ValueError string
  | ValueErrorFrom string error
  | TypeError
  | KeyError string
  | AttributeError
  | OverflowError
  | IncompleteOutputException string
  | TransportError string
  | ValidationError

section \<open>The LLM session (llm.py)\<close>

datatype LLMEngine = DEFAULT | PYDANTIC_AI

text \<open>A litellm \<^verbatim>\<open>Router\<close> object is opaque to this code: only its presence is tested.\<close>

datatype Router = Router string

text \<open>
  The attributes of an \<^verbatim>\<open>LLM\<close> object. \<open>TIMEOUT\<close> is the class attribute, which
  \<^verbatim>\<open>set_timeout\<close> shadows on the instance. The \<^verbatim>\<open>client\<close> and \<^verbatim>\<open>agent\<close> objects
  are fixed by \<open>backend\<close> at construction and are not stored separately.
\<close>

record LLM =
  model :: string
  token_limit :: "int option"
  router :: "Router option"
  is_dynamic :: bool
  backend :: LLMEngine
  temperature :: rat
  is_thinking :: bool
  page_count :: "int option"
  thinking_budget :: int
  TIMEOUT :: int

definition DEFAULT_TEMPERATURE :: rat where "DEFAULT_TEMPERATURE = 0"
definition THINKING_BUDGET_TOKENS :: int where "THINKING_BUDGET_TOKENS = 8000"
definition DEFAULT_PAGE_TOKENS :: int where "DEFAULT_PAGE_TOKENS = 1500"
definition MAX_TOKEN_LIMIT :: int where "MAX_TOKEN_LIMIT = 120000"
definition MAX_THINKING_BUDGET :: int where "MAX_THINKING_BUDGET = 64000"
definition MIN_THINKING_BUDGET :: int where "MIN_THINKING_BUDGET = 1200"

definition init_LLM :: "string \<Rightarrow> int option \<Rightarrow> LLMEngine \<Rightarrow> LLM" where
  "init_LLM m limit b =
     \<lparr> model = m, token_limit = limit, router = None, is_dynamic = False, backend = b,
       temperature = DEFAULT_TEMPERATURE, is_thinking = False, page_count = None,
       thinking_budget = THINKING_BUDGET_TOKENS, TIMEOUT = 3000 \<rparr>"

definition load_router :: "Router \<Rightarrow> LLM \<Rightarrow> error + LLM" where
  "load_router r s =
     (if backend s \<noteq> DEFAULT then Inl (ValueError ''Router is only supported with LITELLM backend'')
      else Inr (s\<lparr>router := Some r\<rparr>))"

definition set_temperature :: "rat \<Rightarrow> LLM \<Rightarrow> LLM" where
  "set_temperature t s = s\<lparr>temperature := t\<rparr>"

definition set_thinking :: "bool \<Rightarrow> LLM \<Rightarrow> LLM" where
  "set_thinking b s = (let s1 = s\<lparr>is_thinking := b\<rparr> in s1\<lparr>temperature := 1\<rparr>)"


definition set_timeout :: "int \<Rightarrow> LLM \<Rightarrow> LLM" where
  "set_timeout timeout_ms s = s\<lparr>TIMEOUT := timeout_ms\<rparr>"

subsection \<open>Binary64 arithmetic of the thinking budget\<close>

text \<open>
  \<^verbatim>\<open>DEFAULT_THINKING_RATIO = 1/3\<close> is a Python float, so
  \<^verbatim>\<open>int(page_count * DEFAULT_PAGE_TOKENS * DEFAULT_THINKING_RATIO)\<close> converts the integer
  product to a double, multiplies two doubles and truncates. A finite double is held by its
  exact value \<open>m / 2 ^ k\<close> as the pair \<open>(m, k)\<close>. Every operation rounds the exact result
  to 53 significant bits, ties to even; the values that occur here are far from the
  subnormal range, and a product with a factor below one cannot overflow.
\<close>

type_synonym pyfloat = "int \<times> nat"

function bit_length :: "int \<Rightarrow> nat" where
  "bit_length n = (if n \<le> 0 then 0 else Suc (bit_length (n div 2)))"
  by pat_completeness auto
termination
  by (relation "measure nat") auto

declare bit_length.simps [simp del]

definition round53 :: "int \<Rightarrow> int" where
  "round53 a =
     (let b = bit_length a in
      if b \<le> 53 then a
      else
        let s = b - 53; m = a div 2 ^ s; r = a mod 2 ^ s; h = 2 ^ (s - 1)
        in (if h < r \<or> (r = h \<and> odd m) then m + 1 else m) * 2 ^ s)"

text \<open>
  \<^verbatim>\<open>float(n)\<close> of an integer, as the implicit conversion in \<^verbatim>\<open>int * float\<close> does it:
  correctly rounded, and \<^verbatim>\<open>OverflowError: int too large to convert to float\<close> when the
  rounded magnitude reaches \<open>2 ^ 1024\<close>.
\<close>

definition float_of_int :: "int \<Rightarrow> error + pyfloat" where
  "float_of_int n =
     (let x = sgn n * round53 \<bar>n\<bar>
      in if 2 ^ 1024 \<le> \<bar>x\<bar> then Inl OverflowError else Inr (x, 0))"

definition float_mul :: "pyfloat \<Rightarrow> pyfloat \<Rightarrow> pyfloat" where
  "float_mul x y = (sgn (fst x * fst y) * round53 \<bar>fst x * fst y\<bar>, snd x + snd y)"

text \<open>\<^verbatim>\<open>int(x)\<close> of a float truncates towards zero.\<close>

definition int_of_float :: "pyfloat \<Rightarrow> int" where
  "int_of_float x = sgn (fst x) * (\<bar>fst x\<bar> div 2 ^ snd x)"

text \<open>
  The double nearest to one third is \<open>6004799503160661 / 2 ^ 54\<close> (bit pattern
  \<^verbatim>\<open>0x3FD5555555555555\<close>).
\<close>

definition DEFAULT_THINKING_RATIO :: pyfloat where
  "DEFAULT_THINKING_RATIO = (6004799503160661, 54)"

text \<open>
  \<^verbatim>\<open>set_page_count\<close> returns the exception raised, if any, together with the object as
  the call leaves it: \<^verbatim>\<open>self.page_count\<close> is assigned before the budgets are computed.
\<close>

definition set_page_count :: "int \<Rightarrow> LLM \<Rightarrow> error option \<times> LLM" where
  "set_page_count n s =
     (if n \<le> 0 then (Some (ValueError ''Page count must be a positive integer''), s)
      else
        let s1 = s\<lparr>page_count := Some n\<rparr>;
            content_tokens = min (n * DEFAULT_PAGE_TOKENS) MAX_TOKEN_LIMIT
        in case float_of_int (n * DEFAULT_PAGE_TOKENS) of
             Inl e \<Rightarrow> (Some e, s1)
           | Inr x \<Rightarrow>
               let thinking_tokens = int_of_float (float_mul x DEFAULT_THINKING_RATIO);
                   thinking_tokens = max thinking_tokens MIN_THINKING_BUDGET;
                   thinking_tokens = min thinking_tokens MAX_THINKING_BUDGET
               in (None, s1\<lparr>token_limit := Some content_tokens,
                              thinking_budget := thinking_tokens\<rparr>))"

subsection \<open>The request gateway\<close>

text \<open>
  A chat message is a dict with a role and a content; the content is a string or, for
  vision requests, a list of text and image parts.
\<close>

datatype content_part = TextPart string | ImageUrlPart string

datatype msg_content = Text string | Parts "content_part list"

record message =
  role :: string
  content :: msg_content

text \<open>
  A pydantic model class is known to this code through \<^verbatim>\<open>model_fields\<close>: the field names
  with their annotations. \<open>ListOf t\<close> is \<^verbatim>\<open>List[t]\<close>, \<open>OptionalOf t\<close> is
  \<^verbatim>\<open>Optional[t]\<close>, \<open>BareList\<close> is the unparameterised \<^verbatim>\<open>list\<close>, and \<open>Scalar n\<close> any
  other type named \<open>n\<close>. \<^verbatim>\<open>typing.get_origin\<close> gives \<^verbatim>\<open>list\<close> for the first,
  \<^verbatim>\<open>Union\<close> for the second and \<^verbatim>\<open>None\<close> for the others.
\<close>

datatype annotation = Scalar string | ListOf annotation | OptionalOf annotation | BareList

fun get_origin :: "annotation \<Rightarrow> string option" where
  "get_origin (ListOf t) = Some ''list''"
| "get_origin (OptionalOf t) = Some ''Union''"
| "get_origin (Scalar n) = None"
| "get_origin BareList = None"

record model_class =
  class_name :: string
  model_fields :: "(string \<times> annotation) list"

text \<open>
  The \<^verbatim>\<open>response_model\<close> argument of \<^verbatim>\<open>request\<close> is a pydantic model class or the
  builtin \<^verbatim>\<open>dict\<close> (the conflict resolver passes the latter).
\<close>

datatype rmodel = DictType | ModelClass model_class

text \<open>
  What a request returns: an instance of a pydantic model (held by its field mapping, which
  is what \<^verbatim>\<open>model_dump()\<close> gives back), a plain Python value, or a raw completion object
  whose \<^verbatim>\<open>choices[0].message.content\<close> is the given text.
\<close>

datatype response = Instance pydict | Plain pyval | Completion string

datatype thinking_param = ThinkingEnabled int

datatype endpoint = RouterCompletion | ClientCreate | LitellmCompletion

text \<open>
  The keyword arguments of an outgoing provider call. A keyword that the call site does not
  pass is \<open>None\<close>, as is one passed with the value \<^verbatim>\<open>None\<close>.
\<close>

record transport_call =
  endpoint :: endpoint
  call_model :: string
  call_messages :: "message list"
  response_model :: "rmodel option"
  call_temperature :: "rat option"
  timeout :: "int option"
  max_retries :: "nat option"
  max_tokens :: "int option"
  thinking :: "thinking_param option"

text \<open>
  Everything this code calls but does not define is a parameter: the provider call, the
  pydantic-ai agent (\<^verbatim>\<open>agent.run(prompt, result_type).data\<close>; a \<open>None\<close> result type stands
  for \<^verbatim>\<open>str\<close>), the helpers of \<^verbatim>\<open>extract_thinker.utils\<close>, pydantic's validating
  constructor \<^verbatim>\<open>response_model(**mapping)\<close>, \<^verbatim>\<open>yaml.dump\<close>, the builtin \<^verbatim>\<open>str\<close>, the
  order in which a set is iterated (applied to its members in insertion order) and the order
  in which \<^verbatim>\<open>as_completed\<close> yields the futures (applied to their outcomes in page order).
\<close>

record externals =
  transport :: "transport_call \<Rightarrow> error + response"
  agent_run :: "string \<Rightarrow> rmodel option \<Rightarrow> error + response"
  add_classification_structure :: "rmodel \<Rightarrow> error + string"
  extract_thinking_json :: "string \<Rightarrow> rmodel option \<Rightarrow> error + response"
  make_all_fields_optional :: "model_class \<Rightarrow> model_class"
  construct :: "model_class \<Rightarrow> pydict \<Rightarrow> error + pydict"
  encode_image :: "pyval \<Rightarrow> error + string"
  yaml_dump :: "pyval \<Rightarrow> string"
  py_str :: "pyval \<Rightarrow> string"
  set_order :: "pyval list \<Rightarrow> pyval list"
  as_completed :: "(error + response) list \<Rightarrow> (error + response) list"

definition newline :: string where
  "newline = [CHR 0x0A]"

text \<open>\<^verbatim>\<open>DYNAMIC_PROMPT_TEMPLATE.format(prompt=structure)\<close>.\<close>

definition DYNAMIC_PROMPT_TEMPLATE :: "string \<Rightarrow> string" where
  \<open>DYNAMIC_PROMPT_TEMPLATE prompt =
     ''Please provide your thinking process within <think> tags, followed by your JSON output.''
     @ newline @ newline
     @ ''JSON structure:'' @ newline
     @ prompt @ newline @ newline
     @ ''OUTPUT example:'' @ newline
     @ ''<think>'' @ newline
     @ ''Your step-by-step reasoning and analysis goes here...'' @ newline
     @ ''</think>'' @ newline @ newline
     @ ''##JSON OUTPUT'' @ newline
     @ ''{'' @ newline
     @ ''    ...'' @ newline
     @ ''}'' @ newline\<close>

text \<open>\<^verbatim>\<open>sep.join(items)\<close>, which raises \<^verbatim>\<open>TypeError\<close> on an item that is not a string.\<close>

fun join_str :: "string \<Rightarrow> string list \<Rightarrow> string" where
  "join_str sep [] = []"
| "join_str sep [x] = x"
| "join_str sep (x # y # ys) = x @ sep @ join_str sep (y # ys)"

fun text_contents :: "message list \<Rightarrow> error + string list" where
  "text_contents [] = Inr []"
| "text_contents (m # ms) =
     (case content m of
        Parts ps \<Rightarrow> Inl TypeError
      | Text t \<Rightarrow> (case text_contents ms of Inl e \<Rightarrow> Inl e | Inr ts \<Rightarrow> Inr (t # ts)))"

text \<open>\<^verbatim>\<open>response.choices[0].message.content\<close>.\<close>

fun completion_content :: "response \<Rightarrow> error + string" where
  "completion_content (Completion c) = Inr c"
| "completion_content (Instance d) = Inl AttributeError"
| "completion_content (Plain v) = Inl AttributeError"

definition thinking_of :: "LLM \<Rightarrow> thinking_param option" where
  "thinking_of s = (if is_thinking s then Some (ThinkingEnabled (thinking_budget s)) else None)"

text \<open>
  The messages sent: in dynamic mode with a response model, the caller's messages plus one
  system message built from the template and the model's structure.
\<close>

definition working_messages :: "externals \<Rightarrow> LLM \<Rightarrow> message list \<Rightarrow> rmodel option \<Rightarrow> error + message list" where
  "working_messages ext s messages rm =
     (case rm of
        None \<Rightarrow> Inr messages
      | Some m \<Rightarrow>
          if is_dynamic s then
            (case add_classification_structure ext m of
               Inl e \<Rightarrow> Inl e
             | Inr structure \<Rightarrow>
                 Inr (messages @ [\<lparr>role = ''system'', content = Text (DYNAMIC_PROMPT_TEMPLATE structure)\<rparr>]))
          else Inr messages)"

text \<open>The provider call that \<^verbatim>\<open>request\<close> makes on the litellm backend (lines 217 to 236).\<close>

definition request_call :: "LLM \<Rightarrow> message list \<Rightarrow> rmodel option \<Rightarrow> transport_call" where
  "request_call s working rm =
     (let request_model = (if is_dynamic s then None else rm);
          thinking_p = (if backend s = DEFAULT \<and> is_thinking s
                        then Some (ThinkingEnabled (thinking_budget s)) else None)
      in if router s \<noteq> None then
           \<lparr> endpoint = RouterCompletion, call_model = model s, call_messages = working,
             response_model = request_model, call_temperature = Some (temperature s),
             timeout = Some (TIMEOUT s), max_retries = None, max_tokens = None,
             thinking = thinking_p \<rparr>
         else
           \<lparr> endpoint = ClientCreate, call_model = model s, call_messages = working,
             response_model = request_model, call_temperature = Some (temperature s),
             timeout = Some (TIMEOUT s), max_retries = Some 1, max_tokens = token_limit s,
             thinking = thinking_p \<rparr>)"

definition request :: "externals \<Rightarrow> LLM \<Rightarrow> message list \<Rightarrow> rmodel option \<Rightarrow> error + response" where
  "request ext s messages rm =
     (if backend s = PYDANTIC_AI then
        (case text_contents messages of
           Inl e \<Rightarrow> Inl e
         | Inr ts \<Rightarrow>
             (case agent_run ext (join_str '' '' ts) rm of
                Inl e \<Rightarrow> Inl (ValueErrorFrom ''Failed to extract from source: '' e)
              | Inr data \<Rightarrow> Inr data))
      else
        (case working_messages ext s messages rm of
           Inl e \<Rightarrow> Inl e
         | Inr working \<Rightarrow>
             (case transport ext (request_call s working rm) of
                Inl e \<Rightarrow> Inl e
              | Inr resp \<Rightarrow>
                  if \<not> is_dynamic s then Inr resp
                  else
                    (case completion_content resp of
                       Inl e \<Rightarrow> Inl e
                     | Inr c \<Rightarrow> extract_thinking_json ext c rm))))"

text \<open>The provider call that \<^verbatim>\<open>raw_completion\<close> makes (lines 259 to 271).\<close>

definition raw_completion_call :: "LLM \<Rightarrow> message list \<Rightarrow> transport_call" where
  "raw_completion_call s messages =
     (if router s \<noteq> None then
        \<lparr> endpoint = RouterCompletion, call_model = model s, call_messages = messages,
          response_model = None, call_temperature = None, timeout = None, max_retries = None,
          max_tokens = None, thinking = thinking_of s \<rparr>
      else
        \<lparr> endpoint = LitellmCompletion, call_model = model s, call_messages = messages,
          response_model = None, call_temperature = None, timeout = None, max_retries = None,
          max_tokens = token_limit s, thinking = thinking_of s \<rparr>)"

definition raw_completion :: "externals \<Rightarrow> LLM \<Rightarrow> message list \<Rightarrow> error + string" where
  "raw_completion ext s messages =
     (case transport ext (raw_completion_call s messages) of
        Inl e \<Rightarrow> Inl e
      | Inr raw_response \<Rightarrow> completion_content raw_response)"

section \<open>The pagination handler (pagination-handler module)\<close>

subsection \<open>Builtins\<close>

text \<open>
  Truthiness, hashability and the equality that a set uses. Among the hashable values
  \<^verbatim>\<open>True == 1\<close> and \<^verbatim>\<open>False == 0\<close> (with equal hashes) are the only equalities between
  different values; \<open>hash_key\<close> maps a value to the representative of its class.
\<close>

fun truthy :: "pyval \<Rightarrow> bool" where
  "truthy PNone = False"
| "truthy (PBool b) = b"
| "truthy (PInt n) = (n \<noteq> 0)"
| "truthy (PStr t) = (t \<noteq> [])"
| "truthy (PList xs) = (xs \<noteq> [])"
| "truthy (PDict d) = (d \<noteq> [])"

fun hashable :: "pyval \<Rightarrow> bool" where
  "hashable (PList xs) = False"
| "hashable (PDict d) = False"
| "hashable v = True"

fun hash_key :: "pyval \<Rightarrow> pyval" where
  "hash_key (PBool b) = PInt (if b then 1 else 0)"
| "hash_key v = v"

text \<open>
  \<^verbatim>\<open>set(values)\<close>: the members in insertion order, where adding a value equal to a member
  changes nothing; unhashable values raise \<^verbatim>\<open>TypeError\<close>. \<^verbatim>\<open>list(set(values))\<close> lists the
  members in the iteration order of the set.
\<close>

definition set_add :: "pyval list \<Rightarrow> pyval \<Rightarrow> pyval list" where
  "set_add members v = (if hash_key v \<in> hash_key ` set members then members else members @ [v])"

definition py_set :: "pyval list \<Rightarrow> error + pyval list" where
  "py_set xs = (if list_all hashable xs then Inr (foldl set_add [] xs) else Inl TypeError)"

definition list_of_set :: "externals \<Rightarrow> pyval list \<Rightarrow> error + pyval list" where
  "list_of_set ext xs = (case py_set xs of Inl e \<Rightarrow> Inl e | Inr members \<Rightarrow> Inr (set_order ext members))"

text \<open>\<^verbatim>\<open>v[key]\<close> for a string key: only a dict can be subscripted so.\<close>

fun getitem :: "pyval \<Rightarrow> string \<Rightarrow> error + pyval" where
  "getitem (PDict d) k = (case map_of d k of None \<Rightarrow> Inl (KeyError k) | Some v \<Rightarrow> Inr v)"
| "getitem v k = Inl TypeError"

text \<open>\<^verbatim>\<open>for x in v\<close>: the elements of a list, the characters of a string, the keys of a dict.\<close>

fun iterate :: "pyval \<Rightarrow> error + pyval list" where
  "iterate (PList xs) = Inr xs"
| "iterate (PStr t) = Inr (map (\<lambda>c. PStr [c]) t)"
| "iterate (PDict d) = Inr (map (\<lambda>kv. PStr (fst kv)) d)"
| "iterate v = Inl TypeError"

text \<open>
  \<^verbatim>\<open>result.model_dump()\<close>: the field mapping of a model instance. A plain value has no
  such method. A raw completion object is a pydantic object of the provider library; its
  dump is abridged to the list of choices, which is all this code could reach.
\<close>

fun model_dump :: "response \<Rightarrow> error + pydict" where
  "model_dump (Instance d) = Inr d"
| "model_dump (Plain v) = Inl AttributeError"
| "model_dump (Completion c) =
     Inr [(''choices'', PList [PDict [(''message'', PDict [(''content'', PStr c)])]])]"

fun dump_all :: "response list \<Rightarrow> error + pydict list" where
  "dump_all [] = Inr []"
| "dump_all (r # rs) =
     (case model_dump r of
        Inl e \<Rightarrow> Inl e
      | Inr d \<Rightarrow> (case dump_all rs of Inl e \<Rightarrow> Inl e | Inr ds \<Rightarrow> Inr (d # ds)))"

subsection \<open>Merging the page results\<close>

text \<open>
  The first loop of \<^verbatim>\<open>_merge_results\<close>: \<^verbatim>\<open>field_values\<close> maps each field name, in order
  of first appearance, to the values the pages gave it, in page order.
\<close>

definition add_value :: "string \<times> pyval \<Rightarrow> (string \<times> pyval list) list \<Rightarrow> (string \<times> pyval list) list" where
  "add_value item field_values =
     (let fv = (case map_of field_values (fst item) of
                  None \<Rightarrow> AList.update (fst item) [] field_values
                | Some vs \<Rightarrow> field_values)
      in case map_of fv (fst item) of
           None \<Rightarrow> fv
         | Some vs \<Rightarrow> AList.update (fst item) (vs @ [snd item]) fv)"

definition collect_field_values :: "pydict list \<Rightarrow> (string \<times> pyval list) list" where
  "collect_field_values dumps = fold (\<lambda>result_dict fv. fold add_value result_dict fv) dumps []"

text \<open>The marker that stands for a scalar field on which pages disagree.\<close>

definition conflict_marker :: "pyval list \<Rightarrow> pyval" where
  "conflict_marker candidates = PDict [(''_conflict'', PBool True), (''candidates'', PList candidates)]"

definition is_list_field :: "model_class \<Rightarrow> string \<Rightarrow> bool" where
  "is_list_field rm field_name =
     (case map_of (model_fields rm) field_name of
        None \<Rightarrow> False
      | Some field_type \<Rightarrow> get_origin field_type = Some ''list'')"

definition extend_or_append :: "pyval \<Rightarrow> pyval list \<Rightarrow> pyval list" where
  "extend_or_append v merged_list =
     (case v of
        PList xs \<Rightarrow> merged_list @ xs
      | PNone \<Rightarrow> merged_list
      | _ \<Rightarrow> merged_list @ [v])"

text \<open>The body of the second loop: the merged value of one field.\<close>

definition merge_field :: "externals \<Rightarrow> model_class \<Rightarrow> string \<Rightarrow> pyval list \<Rightarrow> error + pyval" where
  "merge_field ext rm field_name values =
     (let non_null_values = filter (\<lambda>v. v \<noteq> PNone) values
      in if is_list_field rm field_name then Inr (PList (fold extend_or_append values []))
         else if length non_null_values = 0 then Inr PNone
         else
           (case list_of_set ext non_null_values of
              Inl e \<Rightarrow> Inl e
            | Inr distinct_values \<Rightarrow>
                if length distinct_values = 1 then Inr (hd distinct_values)
                else Inr (conflict_marker distinct_values)))"

fun merge_fields :: "externals \<Rightarrow> model_class \<Rightarrow> (string \<times> pyval list) list \<Rightarrow> pydict \<Rightarrow> error + pydict" where
  "merge_fields ext rm [] merged = Inr merged"
| "merge_fields ext rm (item # rest) merged =
     (case merge_field ext rm (fst item) (snd item) of
        Inl e \<Rightarrow> Inl e
      | Inr v \<Rightarrow> merge_fields ext rm rest (AList.update (fst item) v merged))"

text \<open>
  The mapping \<^verbatim>\<open>merged\<close> as it stands at line 113, before conflicts are looked for: the
  MergedRecord of the page results' dumps.
\<close>

definition merged_mapping :: "externals \<Rightarrow> model_class \<Rightarrow> pydict list \<Rightarrow> error + pydict" where
  "merged_mapping ext rm dumps = merge_fields ext rm (collect_field_values dumps) []"

subsection \<open>Conflicts\<close>

text \<open>\<^verbatim>\<open>isinstance(field_value, dict) and field_value.get("_conflict")\<close>.\<close>

definition is_conflict :: "pyval \<Rightarrow> bool" where
  "is_conflict field_value =
     (case field_value of
        PDict d \<Rightarrow> (case map_of d ''_conflict'' of None \<Rightarrow> False | Some c \<Rightarrow> truthy c)
      | _ \<Rightarrow> False)"

text \<open>
  \<^verbatim>\<open>len(field_value) > 1\<close> and \<^verbatim>\<open>len(set(str(x) for x in field_value)) < len(field_value)\<close>.
\<close>

definition has_duplicates :: "externals \<Rightarrow> pyval list \<Rightarrow> bool" where
  "has_duplicates ext xs =
     (1 < length xs \<and> length (remdups (map (py_str ext) xs)) < length xs)"

fun has_conflicts :: "externals \<Rightarrow> pydict \<Rightarrow> model_class \<Rightarrow> bool" where
  "has_conflicts ext [] rm = False"
| "has_conflicts ext (item # rest) rm =
     (case map_of (model_fields rm) (fst item) of
        None \<Rightarrow> has_conflicts ext rest rm
      | Some field_type \<Rightarrow>
          if is_conflict (snd item) then True
          else if get_origin field_type = Some ''list''
                  \<and> (case snd item of PList xs \<Rightarrow> has_duplicates ext xs | _ \<Rightarrow> False)
          then True
          else has_conflicts ext rest rm)"

fun identify_conflicts :: "externals \<Rightarrow> pydict \<Rightarrow> model_class \<Rightarrow> pydict \<Rightarrow> error + pydict" where
  "identify_conflicts ext [] rm conflicts = Inr conflicts"
| "identify_conflicts ext (item # rest) rm conflicts =
     (case map_of (model_fields rm) (fst item) of
        None \<Rightarrow> identify_conflicts ext rest rm conflicts
      | Some field_type \<Rightarrow>
          if is_conflict (snd item) then
            (case getitem (snd item) ''candidates'' of
               Inl e \<Rightarrow> Inl e
             | Inr candidates \<Rightarrow>
                 identify_conflicts ext rest rm (AList.update (fst item) candidates conflicts))
          else if get_origin field_type = Some ''list''
                  \<and> (case snd item of PList xs \<Rightarrow> has_duplicates ext xs | _ \<Rightarrow> False)
          then identify_conflicts ext rest rm (AList.update (fst item) (snd item) conflicts)
          else identify_conflicts ext rest rm conflicts)"

definition build_conflict_resolution_prompt :: "externals \<Rightarrow> pydict \<Rightarrow> string" where
  \<open>build_conflict_resolution_prompt ext conflicts =
     ''Please resolve conflicts in these fields by choosing the correct value ''
     @ ''and providing a confidence score (1-10).'' @ newline @ newline
     @ ''Return JSON in this format:'' @ newline
     @ ''{'' @ newline
     @ ''  "resolved_fields": {'' @ newline
     @ ''    "field_name": {"value": "chosen_value", "confidence": 9}'' @ newline
     @ ''  }'' @ newline
     @ ''}'' @ newline @ newline
     @ ''Conflicts to resolve:'' @ newline @ py_str ext (PDict conflicts)\<close>

text \<open>
  \<^verbatim>\<open>response.get("resolved_fields", {})\<close>: a dict answers with the entry or the default, a
  raw completion object (which has a \<^verbatim>\<open>get\<close> but no such attribute) with the default, and
  anything else has no \<^verbatim>\<open>get\<close>.
\<close>

fun get_resolved_fields :: "response \<Rightarrow> error + pyval" where
  "get_resolved_fields (Plain (PDict d)) =
     Inr (case map_of d ''resolved_fields'' of None \<Rightarrow> PDict [] | Some v \<Rightarrow> v)"
| "get_resolved_fields (Completion c) = Inr (PDict [])"
| "get_resolved_fields r = Inl AttributeError"

definition conflict_resolution_messages :: "externals \<Rightarrow> pydict \<Rightarrow> message list" where
  "conflict_resolution_messages ext conflicts =
     [\<lparr>role = ''system'', content = Text ''You are a server API that resolves field conflicts.''\<rparr>,
      \<lparr>role = ''user'', content = Text (build_conflict_resolution_prompt ext conflicts)\<rparr>]"

definition request_conflict_resolution :: "externals \<Rightarrow> LLM \<Rightarrow> pydict \<Rightarrow> error + pyval" where
  "request_conflict_resolution ext s conflicts =
     (let messages = conflict_resolution_messages ext conflicts
      in case request ext s messages (Some DictType) of
           Inl e \<Rightarrow> Inl (ValueErrorFrom ''Failed to resolve conflicts: '' e)
         | Inr resp \<Rightarrow>
             (case get_resolved_fields resp of
                Inl e \<Rightarrow> Inl (ValueErrorFrom ''Failed to resolve conflicts: '' e)
              | Inr resolved \<Rightarrow> Inr resolved))"

text \<open>The loop of \<^verbatim>\<open>_merge_resolved_conflicts\<close> over \<^verbatim>\<open>resolved.items()\<close>.\<close>

fun merge_resolved_items :: "pydict \<Rightarrow> pydict \<Rightarrow> error + pydict" where
  "merge_resolved_items [] result_dict = Inr result_dict"
| "merge_resolved_items (item # rest) result_dict =
     (if map_of result_dict (fst item) \<noteq> None then
        (case getitem (snd item) ''value'' of
           Inl e \<Rightarrow> Inl e
         | Inr v \<Rightarrow> merge_resolved_items rest (AList.update (fst item) v result_dict))
      else merge_resolved_items rest result_dict)"

definition merge_resolved_conflicts :: "pydict \<Rightarrow> pyval \<Rightarrow> model_class \<Rightarrow> error + pydict" where
  "merge_resolved_conflicts original resolved rm =
     (case resolved of
        PDict items \<Rightarrow> merge_resolved_items items original
      | _ \<Rightarrow> Inl AttributeError)"

definition resolve_conflicts :: "externals \<Rightarrow> LLM \<Rightarrow> pydict \<Rightarrow> model_class \<Rightarrow> error + pydict" where
  "resolve_conflicts ext s result_dict rm =
     (case identify_conflicts ext result_dict rm [] of
        Inl e \<Rightarrow> Inl e
      | Inr conflicts \<Rightarrow>
          if conflicts = [] then Inr result_dict
          else
            (case request_conflict_resolution ext s conflicts of
               Inl e \<Rightarrow> Inl e
             | Inr resolved \<Rightarrow> merge_resolved_conflicts result_dict resolved rm))"

text \<open>\<^verbatim>\<open>response_model(**mapping)\<close>: pydantic validates and builds the instance.\<close>

definition instantiate :: "externals \<Rightarrow> model_class \<Rightarrow> pydict \<Rightarrow> error + response" where
  "instantiate ext rm mapping =
     (case construct ext rm mapping of Inl e \<Rightarrow> Inl e | Inr d \<Rightarrow> Inr (Instance d))"

definition merge_results :: "externals \<Rightarrow> LLM \<Rightarrow> response list \<Rightarrow> model_class \<Rightarrow> error + response" where
  "merge_results ext s results rm =
     (case dump_all results of
        Inl e \<Rightarrow> Inl e
      | Inr dumps \<Rightarrow>
          (case merged_mapping ext rm dumps of
             Inl e \<Rightarrow> Inl e
           | Inr merged \<Rightarrow>
               (case (if has_conflicts ext merged rm then resolve_conflicts ext s merged rm
                      else Inr merged) of
                  Inl e \<Rightarrow> Inl e
                | Inr merged' \<Rightarrow> instantiate ext rm merged')))"

subsection \<open>Building the page requests\<close>

definition build_text_content :: "externals \<Rightarrow> pyval \<Rightarrow> string" where
  "build_text_content ext page =
     (case page of
        PDict d \<Rightarrow> ''##Content'' @ newline @ newline @ yaml_dump ext page
      | PStr t \<Rightarrow> ''##Content'' @ newline @ newline @ t
      | _ \<Rightarrow> ''##Content'' @ newline @ newline @ py_str ext page)"

text \<open>The loop over the images of a page: falsy entries are skipped, the others encoded.\<close>

fun image_parts :: "externals \<Rightarrow> pyval list \<Rightarrow> error + content_part list" where
  "image_parts ext [] = Inr []"
| "image_parts ext (img # imgs) =
     (if truthy img then
        (case encode_image ext img of
           Inl e \<Rightarrow> Inl e
         | Inr b64 \<Rightarrow>
             (case image_parts ext imgs of
                Inl e \<Rightarrow> Inl e
              | Inr ps \<Rightarrow> Inr (ImageUrlPart (''data:image/jpeg;base64,'' @ b64) # ps)))
      else image_parts ext imgs)"

definition build_vision_content :: "externals \<Rightarrow> pyval \<Rightarrow> error + content_part list" where
  "build_vision_content ext page =
     (case page of
        PDict d \<Rightarrow>
          (let text_part =
                 (case map_of d ''content'' of
                    None \<Rightarrow> []
                  | Some c \<Rightarrow> [TextPart (''##Content'' @ newline @ newline @ py_str ext c)])
           in if map_of d ''image'' \<noteq> None \<or> map_of d ''images'' \<noteq> None then
                (let images =
                       (case map_of d ''images'' of
                          Some v \<Rightarrow> v
                        | None \<Rightarrow> PList [case map_of d ''image'' of None \<Rightarrow> PNone | Some v \<Rightarrow> v])
                 in case iterate images of
                      Inl e \<Rightarrow> Inl e
                    | Inr imgs \<Rightarrow>
                        (case image_parts ext imgs of
                           Inl e \<Rightarrow> Inl e
                         | Inr ps \<Rightarrow> Inr (text_part @ ps)))
              else Inr text_part)
      | _ \<Rightarrow> Inr [])"

definition build_messages :: "externals \<Rightarrow> pyval \<Rightarrow> bool \<Rightarrow> error + message list" where
  "build_messages ext page vision =
     (let system_message =
            \<lparr>role = ''system'',
             content = Text ''You are a server API that receives document information and returns specific fields in JSON format.''\<rparr>
      in if vision then
           (case build_vision_content ext page of
              Inl e \<Rightarrow> Inl e
            | Inr message_content \<Rightarrow>
                Inr [system_message, \<lparr>role = ''user'', content = Parts message_content\<rparr>])
         else
           Inr [system_message, \<lparr>role = ''user'', content = Text (build_text_content ext page)\<rparr>])"

text \<open>\<^verbatim>\<open>messages.insert(1, ...)\<close>.\<close>

definition add_extra_content :: "message list \<Rightarrow> string \<Rightarrow> message list" where
  "add_extra_content messages extra_content =
     take 1 messages
     @ [\<lparr>role = ''user'', content = Text (''##Extra Content'' @ newline @ newline @ extra_content)\<rparr>]
     @ drop 1 messages"

definition build_continuation_messages :: "message list \<Rightarrow> string \<Rightarrow> message list" where
  "build_continuation_messages messages partial_content =
     messages
     @ [\<lparr>role = ''assistant'', content = Text partial_content\<rparr>,
        \<lparr>role = ''user'', content = Text ''## CONTINUE JSON''\<rparr>]"

subsection \<open>Processing the pages\<close>

definition handle_partial_response ::
    "externals \<Rightarrow> LLM \<Rightarrow> string \<Rightarrow> message list \<Rightarrow> model_class \<Rightarrow> error + response" where
  "handle_partial_response ext s partial_content messages rm =
     (let continuation_messages = build_continuation_messages messages partial_content
      in case request ext s continuation_messages (Some (ModelClass rm)) of
           Inl e \<Rightarrow> Inl (ValueErrorFrom ''Failed to complete partial response: '' e)
         | Inr r \<Rightarrow> Inr r)"

definition process_page :: "externals \<Rightarrow> LLM \<Rightarrow> message list \<Rightarrow> model_class \<Rightarrow> error + response" where
  "process_page ext s messages rm =
     (case request ext s messages (Some (ModelClass rm)) of
        Inr r \<Rightarrow> Inr r
      | Inl (IncompleteOutputException partial_content) \<Rightarrow>
          (case handle_partial_response ext s partial_content messages rm of
             Inl e \<Rightarrow> Inl e
           | Inr partial_result \<Rightarrow>
               (case model_dump partial_result of
                  Inl e \<Rightarrow> Inl e
                | Inr partial_dict \<Rightarrow>
                    if has_conflicts ext partial_dict rm then
                      (case resolve_conflicts ext s partial_dict rm of
                         Inl e \<Rightarrow> Inl e
                       | Inr resolved_dict \<Rightarrow> instantiate ext rm resolved_dict)
                    else Inr partial_result))
      | Inl e \<Rightarrow> Inl e)"

text \<open>
  The first loop of \<^verbatim>\<open>handle\<close>: the messages of every page, built on the calling thread
  (an exception here leaves \<^verbatim>\<open>handle\<close>).
\<close>

fun page_messages :: "externals \<Rightarrow> pyval list \<Rightarrow> bool \<Rightarrow> string option \<Rightarrow> error + message list list" where
  "page_messages ext [] vision extra_content = Inr []"
| "page_messages ext (page # pages) vision extra_content =
     (case build_messages ext page vision of
        Inl e \<Rightarrow> Inl e
      | Inr messages \<Rightarrow>
          (let messages' =
                 (case extra_content of
                    None \<Rightarrow> messages
                  | Some extra \<Rightarrow> if extra \<noteq> [] then add_extra_content messages extra else messages)
           in case page_messages ext pages vision extra_content of
                Inl e \<Rightarrow> Inl e
              | Inr rest \<Rightarrow> Inr (messages' # rest)))"

text \<open>The results that \<^verbatim>\<open>handle\<close> keeps: outcomes that raised are logged and dropped.\<close>

fun successful :: "(error + response) list \<Rightarrow> response list" where
  "successful [] = []"
| "successful (Inl e # outcomes) = successful outcomes"
| "successful (Inr r # outcomes) = r # successful outcomes"

text \<open>
  The outcome of every page task, in page order. The provider is a function of the call it
  receives, so the order in which the pool runs the tasks does not change their outcomes.
\<close>

definition page_outcomes :: "externals \<Rightarrow> LLM \<Rightarrow> message list list \<Rightarrow> model_class \<Rightarrow> (error + response) list" where
  "page_outcomes ext s msgs rm_optional = map (\<lambda>messages. process_page ext s messages rm_optional) msgs"

definition handle ::
    "externals \<Rightarrow> LLM \<Rightarrow> pyval list \<Rightarrow> model_class \<Rightarrow> bool \<Rightarrow> string option \<Rightarrow> error + response" where
  "handle ext s pages rm vision extra_content =
     (let response_model_optional = make_all_fields_optional ext rm
      in case page_messages ext pages vision extra_content of
           Inl e \<Rightarrow> Inl e
         | Inr msgs \<Rightarrow>
             (let results = successful (as_completed ext (page_outcomes ext s msgs response_model_optional))
              in if results = [] then Inl (ValueError ''No valid results obtained from any page'')
                 else merge_results ext s results rm))"

section \<open>Vocabulary of the properties\<close>

text \<open>
  The values that the pages gave to a field, in page order: what \<^verbatim>\<open>field_values[name]\<close>
  holds after the first loop of \<^verbatim>\<open>_merge_results\<close>.
\<close>

definition contributions :: "string \<Rightarrow> pydict list \<Rightarrow> pyval list" where
  "contributions field_name dumps = map snd (filter (\<lambda>item. fst item = field_name) (concat dumps))"

definition field_names :: "pydict list \<Rightarrow> string set" where
  "field_names dumps = fst ` set (concat dumps)"


text \<open>
  Two merged values that differ at most in the order in which pages arrived: lists with the
  same elements as multisets, conflict markers over the same candidates, and otherwise
  values that are equal for Python (\<^verbatim>\<open>True == 1\<close>).
\<close>

definition list_items_of :: "pyval \<Rightarrow> pyval list option" where
  "list_items_of v = (case v of PList xs \<Rightarrow> Some xs | _ \<Rightarrow> None)"

definition candidates_of :: "pyval \<Rightarrow> pyval list option" where
  "candidates_of v =
     (case v of
        PDict [(k1, c), (k2, PList cs)] \<Rightarrow>
          if k1 = ''_conflict'' \<and> c = PBool True \<and> k2 = ''candidates'' then Some cs else None
      | _ \<Rightarrow> None)"

definition same_up_to_order :: "pyval \<Rightarrow> pyval \<Rightarrow> bool" where
  "same_up_to_order a b =
     (case (list_items_of a, list_items_of b) of
        (Some xs, Some ys) \<Rightarrow> mset xs = mset ys
      | _ \<Rightarrow>
          (case (candidates_of a, candidates_of b) of
             (Some cs, Some cs') \<Rightarrow> hash_key ` set cs = hash_key ` set cs'
           | _ \<Rightarrow> hash_key a = hash_key b))"

text \<open>The values recorded for a field so far (nothing when the field is new).\<close>

definition lookup_values :: "(string \<times> pyval list) list \<Rightarrow> string \<Rightarrow> pyval list" where
  "lookup_values fv k = (case map_of fv k of None \<Rightarrow> [] | Some vs \<Rightarrow> vs)"

section \<open>Concrete parameters for the examples\<close>

text \<open>
  CPython keeps a set of at most four elements in a table of eight slots and iterates it in
  slot order; a small non-negative integer hashes to itself and goes to slot \<open>n mod 8\<close>.
  For integers in pairwise different slots the iteration order therefore is the order of the
  slots, whatever the insertion order: \<^verbatim>\<open>list(set([1, 8]))\<close> is \<^verbatim>\<open>[8, 1]\<close>.
\<close>

fun small_int_slot :: "pyval \<Rightarrow> nat" where
  "small_int_slot (PInt n) = nat (n mod 8)"
| "small_int_slot v = 0"

definition cpython_small_int_order :: "pyval list \<Rightarrow> pyval list" where
  "cpython_small_int_order members = sort_key small_int_slot members"

text \<open>An invoice schema with one scalar and one list field, and externals that do nothing.\<close>

definition Invoice :: model_class where
  "Invoice = \<lparr>class_name = ''Invoice'',
              model_fields = [(''total'', Scalar ''int''), (''items'', ListOf (Scalar ''str''))]\<rparr>"

definition Total :: model_class where
  "Total = \<lparr>class_name = ''Total'', model_fields = [(''total'', Scalar ''int'')]\<rparr>"

definition Shipment :: model_class where
  "Shipment = \<lparr>class_name = ''Shipment'',
               model_fields = [(''address'', Scalar ''Address'')]\<rparr>"

definition plain_externals :: externals where
  "plain_externals =
     \<lparr> transport = (\<lambda>call. Inl (TransportError ''no provider'')),
       agent_run = (\<lambda>prompt rt. Inl (TransportError ''no agent'')),
       add_classification_structure = (\<lambda>m. Inr ''total: int''),
       extract_thinking_json = (\<lambda>reply m. Inl ValidationError),
       make_all_fields_optional = (\<lambda>m. m),
       construct = (\<lambda>m mapping. Inr mapping),
       encode_image = (\<lambda>img. Inr ''aW1n''),
       yaml_dump = (\<lambda>v. ''{}''),
       py_str = (\<lambda>v. case v of PStr t \<Rightarrow> t | _ \<Rightarrow> []),
       set_order = cpython_small_int_order,
       as_completed = (\<lambda>outcomes. outcomes) \<rparr>"

text \<open>
  A provider for the examples. It answers the conflict resolver (the call with
  \<^verbatim>\<open>response_model=dict\<close>) with a resolution of \<open>total\<close>, a call without a response model
  with a free-text reply, and a page call according to the page: pages one and three give a
  partial invoice, every other page fails.
\<close>

definition resolver_reply :: pyval where
  "resolver_reply =
     PDict [(''resolved_fields'',
             PDict [(''total'', PDict [(''value'', PInt 12), (''confidence'', PInt 8)])])]"

definition page_text :: "string \<Rightarrow> msg_content" where
  "page_text t = Text (''##Content'' @ newline @ newline @ t)"

definition demo_transport :: "transport_call \<Rightarrow> error + response" where
  "demo_transport call =
     (if response_model call = Some DictType then Inr (Plain resolver_reply)
      else if response_model call = None then Inr (Completion ''<think>sum the lines</think> total is 12'')
      else
        (case call_messages call of
           [system_message, user_message] \<Rightarrow>
             if content user_message = page_text ''page one''
             then Inr (Instance [(''total'', PInt 5), (''items'', PList [PStr ''pen''])])
             else if content user_message = page_text ''page three''
             then Inr (Instance [(''total'', PNone), (''items'', PList [PStr ''ink''])])
             else Inl (TransportError ''connection reset'')
         | _ \<Rightarrow> Inl (TransportError ''connection reset'')))"

definition demo_externals :: externals where
  "demo_externals =
     plain_externals
       \<lparr> transport := demo_transport,
         agent_run := (\<lambda>prompt rt.
            if prompt = ''page one'' \<and> rt = Some (ModelClass Total)
            then Inr (Instance [(''total'', PInt 7)]) else Inl (TransportError ''no agent'')),
         extract_thinking_json := (\<lambda>reply m.
            if reply = ''<think>sum the lines</think> total is 12'' \<and> m = Some (ModelClass Total)
            then Inr (Instance [(''total'', PInt 12)]) else Inl ValidationError) \<rparr>"

text \<open>Three text pages, and the session used in the examples.\<close>

definition three_pages :: "pyval list" where
  "three_pages = [PStr ''page one'', PStr ''page two'', PStr ''page three'']"

definition session :: LLM where
  "session = init_LLM ''claude'' None DEFAULT"

text \<open>The messages that \<^verbatim>\<open>handle\<close> builds for a text page.\<close>

definition page_request :: "string \<Rightarrow> message list" where
  "page_request t =
     [\<lparr>role = ''system'',
       content = Text ''You are a server API that receives document information and returns specific fields in JSON format.''\<rparr>,
      \<lparr>role = ''user'', content = page_text t\<rparr>]"

section \<open>Properties of the session setters\<close>

lemma int_le_div: "0 < (q::int) \<Longrightarrow> c * q \<le> a \<Longrightarrow> c \<le> a div q"
  using zdiv_mono1 by fastforce

lemma int_div_less:
  assumes q: "0 < (q::int)" and a: "a < c * q"
  shows "a div q < c"
proof (rule ccontr)
  assume "\<not> a div q < c"
  then have "c \<le> a div q" by simp
  then have "c * q \<le> (a div q) * q" using q by simp
  also have "\<dots> = a - a mod q" by (simp add: algebra_simps minus_mod_eq_mult_div)
  also have "\<dots> \<le> a" using q by simp
  finally show False using a by simp
qed

lemma bit_length_pos: "0 < a \<Longrightarrow> 0 < bit_length a"
  by (subst bit_length.simps) simp

lemma bit_length_bounds: "0 < a \<Longrightarrow> 2 ^ (bit_length a - 1) \<le> a \<and> a < 2 ^ bit_length a"
proof (induction a rule: bit_length.induct)
  case (1 n)
  show ?case
  proof (cases "n div 2 = 0")
    case True
    with 1(2) have "n = 1" by presburger
    then show ?thesis by (simp add: bit_length.simps[of 1] bit_length.simps[of 0])
  next
    case False
    with 1(2) have pos: "0 < n div 2" by presburger
    from 1(1)[OF _ pos] 1(2)
    have ih: "2 ^ (bit_length (n div 2) - 1) \<le> n div 2" "n div 2 < 2 ^ bit_length (n div 2)"
      by auto
    have bl: "bit_length n = Suc (bit_length (n div 2))"
      using 1(2) by (subst bit_length.simps) simp
    from bit_length_pos[OF pos] obtain k where k: "bit_length (n div 2) = Suc k"
      by (cases "bit_length (n div 2)") auto
    from ih show ?thesis unfolding bl k by simp presburger
  qed
qed

lemma round53_small: "0 \<le> a \<Longrightarrow> a < 2 ^ 53 \<Longrightarrow> round53 a = a"
proof -
  assume a: "0 \<le> a" "a < 2 ^ 53"
  have "bit_length a \<le> 53"
  proof (cases "a = 0")
    case True
    then show ?thesis by (simp add: bit_length.simps[of 0])
  next
    case False
    with a have "0 < a" by simp
    from bit_length_bounds[OF this] a(2) have "(2::int) ^ (bit_length a - 1) < 2 ^ 53" by linarith
    then have "bit_length a - 1 < 53" by (simp only: power_strict_increasing_iff) 
    then show ?thesis by simp
  qed
  then show ?thesis by (simp add: round53_def)
qed

lemma round53_lower:
  assumes u: "0 \<le> u" "u < 2 ^ 53" and le: "u * 2 ^ t \<le> a"
  shows "u * 2 ^ t \<le> round53 a"
proof (cases "bit_length a \<le> 53")
  case True
  then show ?thesis using le by (simp add: round53_def)
next
  case False
  define s where "s = bit_length a - 53"
  define m where "m = a div 2 ^ s"
  from False have bl: "bit_length a = 53 + s" and s1: "1 \<le> s" by (simp_all add: s_def)
  have apos: "0 < a"
  proof (rule ccontr)
    assume "\<not> 0 < a"
    then have "bit_length a = 0" by (subst bit_length.simps) simp
    with False show False by simp
  qed
  from bit_length_bounds[OF apos] have "(2::int) ^ (52 + s) \<le> a" by (simp add: bl)
  then have "(2::int) ^ 52 * 2 ^ s \<le> a" by (simp add: power_add)
  then have m52: "2 ^ 52 \<le> m"
    unfolding m_def by (intro int_le_div) simp_all
  have r: "m * 2 ^ s \<le> round53 a"
    using False by (simp add: round53_def Let_def s_def[symmetric] m_def[symmetric])
  show ?thesis
  proof (cases "s \<le> t")
    case True
    then obtain d where t: "t = d + s" by (metis le_add_diff_inverse2)
    from le have "(u * 2 ^ d) * 2 ^ s \<le> a" by (simp add: t power_add mult.assoc)
    then have "u * 2 ^ d \<le> m"
      unfolding m_def by (intro int_le_div) simp_all
    then have "u * 2 ^ d * 2 ^ s \<le> m * 2 ^ s" by simp
    with r have "u * 2 ^ d * 2 ^ s \<le> round53 a" by linarith
    then show ?thesis by (simp add: t power_add mult.assoc)
  next
    case False
    then have "Suc t \<le> s" by simp
    have "u * 2 ^ t \<le> 2 ^ 53 * 2 ^ t" using u by simp
    also have "\<dots> = (2::int) ^ 52 * 2 ^ Suc t" by simp
    also have "\<dots> \<le> 2 ^ 52 * 2 ^ s" using \<open>Suc t \<le> s\<close>
      by (simp only: mult_le_cancel_left_pos zero_less_power zero_less_numeral power_increasing_iff one_less_numeral_iff semiring_norm)
    also have "\<dots> \<le> m * 2 ^ s" using m52 by simp
    finally show ?thesis using r by simp
  qed
qed

lemma exact_small:
  "list_all (\<lambda>p. int_of_float (float_mul (p * 1500, 0) DEFAULT_THINKING_RATIO) = 500 * p) [1..128]"
  by code_simp

lemma thinking_small:
  assumes "1 \<le> p" "p \<le> 128"
  shows "int_of_float (float_mul (p * 1500, 0) DEFAULT_THINKING_RATIO) = 500 * p"
proof -
  from assms have "p \<in> set [1..128]" by simp
  with exact_small show ?thesis unfolding list_all_iff by blast
qed

lemma thinking_large:
  assumes p: "129 \<le> p" and x: "x = round53 (p * 1500)"
  shows "64000 \<le> int_of_float (float_mul (x, 0) DEFAULT_THINKING_RATIO)"
proof -
  have "193500 * 2 ^ 0 \<le> p * 1500" using p by simp
  from round53_lower[OF _ _ this] have x1: "193500 \<le> x" by (simp add: x)
  define P where "P = x * 6004799503160661"
  have "125 * 2 ^ 63 \<le> P" using x1 by (simp add: P_def)
  from round53_lower[OF _ _ this] have r: "125 * 2 ^ 63 \<le> round53 P" by simp
  have Ppos: "0 < P" using x1 by (simp add: P_def)
  have "64000 * 2 ^ 54 \<le> round53 P" using r by simp
  then have "64000 \<le> round53 P div 2 ^ 54"
    by (intro int_le_div) simp_all
  moreover have "0 < round53 P" using r by simp
  ultimately show ?thesis
    using Ppos by (simp add: int_of_float_def float_mul_def DEFAULT_THINKING_RATIO_def P_def[symmetric] sgn_if abs_if)
qed

lemma round53_upper: "0 < a \<Longrightarrow> round53 a \<le> 2 ^ max 53 (bit_length a)"
proof (cases "bit_length a \<le> 53")
  case True
  assume "0 < a"
  from bit_length_bounds[OF this] have "a < 2 ^ bit_length a" by simp
  also have "(2::int) ^ bit_length a \<le> 2 ^ 53" using True by (simp only: power_increasing_iff one_less_numeral_iff semiring_norm)
  finally show ?thesis using True by (simp add: round53_def max_def)
next
  case False
  assume apos: "0 < a"
  define s where "s = bit_length a - 53"
  define m where "m = a div 2 ^ s"
  from False have bl: "bit_length a = 53 + s" by (simp add: s_def)
  from bit_length_bounds[OF apos] have "a < 2 ^ 53 * 2 ^ s" by (simp add: bl power_add)
  then have "m < 2 ^ 53" unfolding m_def
    by (intro int_div_less) simp_all
  then have m1: "m + 1 \<le> 2 ^ 53" by simp
  have "round53 a \<le> (m + 1) * 2 ^ s"
    using False by (simp add: round53_def Let_def s_def[symmetric] m_def[symmetric])
  also have "\<dots> \<le> 2 ^ 53 * 2 ^ s" using m1 by (simp only: mult_le_cancel_right_pos zero_less_power zero_less_numeral)
  finally show ?thesis using False by (simp add: bl power_add max_def)
qed

lemma float_of_int_finite:
  assumes "0 < n" "n < 2 ^ 1023"
  shows "float_of_int n = Inr (round53 n, 0)"
proof -
  have "bit_length n \<le> 1023"
  proof (rule ccontr)
    assume "\<not> bit_length n \<le> 1023"
    then have "1023 \<le> bit_length n - 1" by simp
    then have "(2::int) ^ 1023 \<le> 2 ^ (bit_length n - 1)"
      by (simp only: power_increasing_iff one_less_numeral_iff semiring_norm)
    with bit_length_bounds[OF assms(1)] assms(2) show False by linarith
  qed
  then have "max 53 (bit_length n) \<le> 1023" by simp
  then have "(2::int) ^ max 53 (bit_length n) \<le> 2 ^ 1023"
    by (simp only: power_increasing_iff one_less_numeral_iff semiring_norm)
  with round53_upper[OF assms(1)] have up: "round53 n \<le> 2 ^ 1023" by linarith
  have "(0::int) * 2 ^ 0 \<le> n" using assms(1) by simp
  from round53_lower[OF _ _ this] have lo: "0 \<le> round53 n" by simp
  have "(2::int) ^ 1023 < 2 ^ 1024" by simp
  with up lo have "\<not> 2 ^ 1024 \<le> \<bar>round53 n\<bar>" by linarith
  then show ?thesis using assms(1) by (simp add: float_of_int_def Let_def)
qed

text \<open>
  C9. For every boolean \<open>b\<close>, \<^verbatim>\<open>set_thinking(b)\<close> sets \<open>is_thinking\<close> to \<open>b\<close> and
  the temperature to 1, whatever temperature was configured before and also when \<open>b\<close> is
  \<open>False\<close>; every other attribute of the session keeps its value.
\<close>

theorem set_thinking_frame:
  "is_thinking (set_thinking b s) = b
   \<and> temperature (set_thinking b s) = 1
   \<and> temperature (set_thinking False (set_temperature t s)) = 1
   \<and> model (set_thinking b s) = model s
   \<and> token_limit (set_thinking b s) = token_limit s
   \<and> router (set_thinking b s) = router s
   \<and> is_dynamic (set_thinking b s) = is_dynamic s
   \<and> backend (set_thinking b s) = backend s
   \<and> page_count (set_thinking b s) = page_count s
   \<and> thinking_budget (set_thinking b s) = thinking_budget s
   \<and> TIMEOUT (set_thinking b s) = TIMEOUT s
   \<and> set_thinking b s = s\<lparr>is_thinking := b, temperature := 1\<rparr>"
  by (simp add: set_thinking_def set_temperature_def)

text \<open>
  C5 (as amended). For every positive page count \<open>p\<close> whose product with the page
  estimate converts to a double without overflow, \<^verbatim>\<open>set_page_count\<close> raises nothing,
  stores \<open>p\<close>, sets the token limit to \<open>min (p * 1500) 120000\<close> and the thinking budget
  to \<open>p * 1500 / 3 = p * 500\<close> clamped to \<open>[1200, 64000]\<close>. The conversion succeeds for
  every \<open>p\<close> with \<open>p * 1500 < 2 ^ 1023\<close> (lemma \<open>float_of_int_finite\<close>).
\<close>

theorem set_page_count_budgets:
  assumes "0 < p" and "float_of_int (p * DEFAULT_PAGE_TOKENS) \<noteq> Inl OverflowError"
  shows "set_page_count p s =
           (None, s\<lparr>page_count := Some p,
                     token_limit := Some (min (p * 1500) 120000),
                     thinking_budget := min (max (p * 500) 1200) 64000\<rparr>)"
proof -
  define x where "x = round53 (p * 1500)"
  have abs: "sgn (p * 1500) * round53 \<bar>p * 1500\<bar> = x"
    using assms(1) by (simp add: x_def sgn_if abs_if)
  have conv: "float_of_int (p * 1500) = Inr (x, 0)"
    using assms(2) abs by (auto simp: float_of_int_def DEFAULT_PAGE_TOKENS_def Let_def split: if_splits)
  have budget: "min (max (int_of_float (float_mul (x, 0) DEFAULT_THINKING_RATIO)) 1200) 64000
                  = min (max (p * 500) 1200) 64000"
  proof (cases "p \<le> 128")
    case True
    then have "p * 1500 < 2 ^ 53" by simp
    with assms(1) have "x = p * 1500" unfolding x_def by (intro round53_small) simp_all
    with thinking_small[of p] assms(1) True show ?thesis by simp
  next
    case False
    then have "129 \<le> p" by simp
    from thinking_large[OF this x_def] False show ?thesis by simp
  qed
  show ?thesis
    using assms(1) conv budget
    by (simp add: set_page_count_def DEFAULT_PAGE_TOKENS_def MAX_TOKEN_LIMIT_def
        MIN_THINKING_BUDGET_def MAX_THINKING_BUDGET_def Let_def)
qed

lemma float_of_int_100: "float_of_int (100 * DEFAULT_PAGE_TOKENS) \<noteq> Inl OverflowError"
  using float_of_int_finite[of 150000] by (simp add: DEFAULT_PAGE_TOKENS_def)

lemma float_of_int_1: "float_of_int (1 * DEFAULT_PAGE_TOKENS) \<noteq> Inl OverflowError"
  using float_of_int_finite[of 1500] by (simp add: DEFAULT_PAGE_TOKENS_def)

theorem set_page_count_budgets_witness:
  "set_page_count 1 (init_LLM ''claude'' None DEFAULT)
     = (None, (init_LLM ''claude'' None DEFAULT)
                \<lparr>page_count := Some 1, token_limit := Some 1500, thinking_budget := 1200\<rparr>)
   \<and> set_page_count 100 (init_LLM ''claude'' None DEFAULT)
     = (None, (init_LLM ''claude'' None DEFAULT)
                \<lparr>page_count := Some 100, token_limit := Some 120000, thinking_budget := 50000\<rparr>)"
  using set_page_count_budgets[of 1 "init_LLM ''claude'' None DEFAULT", OF _ float_of_int_1]
    set_page_count_budgets[of 100 "init_LLM ''claude'' None DEFAULT", OF _ float_of_int_100]
  by simp

lemma float_of_int_overflow: "float_of_int (10 ^ 306 * DEFAULT_PAGE_TOKENS) = Inl OverflowError"
  by code_simp

text \<open>
  C5 as stated fails. A page count of \<open>10 ^ 306\<close> is positive, but its product with the
  page estimate is too large for a double: the call raises \<^verbatim>\<open>OverflowError\<close> after storing
  the page count and before storing either budget.
\<close>

theorem set_page_count_overflow_counterexample:
  "set_page_count (10 ^ 306) (init_LLM ''claude'' None DEFAULT)
     = (Some OverflowError, (init_LLM ''claude'' None DEFAULT)\<lparr>page_count := Some (10 ^ 306)\<rparr>)"
  using float_of_int_overflow by (simp add: set_page_count_def Let_def)

section \<open>Properties of the request gateway\<close>




text \<open>
  C8 (as amended). Every provider call made by \<^verbatim>\<open>request\<close> carries the session's timeout,
  as last set by \<^verbatim>\<open>set_timeout\<close>, on the routed and on the direct path; on the direct path
  it also carries \<^verbatim>\<open>max_retries=1\<close>. On the litellm backend that call is the one
  \<^verbatim>\<open>request\<close> makes.
\<close>

theorem request_timeout_retry:
  "timeout (request_call s working rm) = Some (TIMEOUT s)
   \<and> timeout (request_call (set_timeout t s) working rm) = Some t
   \<and> (router s = None \<longrightarrow> max_retries (request_call s working rm) = Some 1)
   \<and> (backend s \<noteq> PYDANTIC_AI \<longrightarrow> working_messages ext s messages rm = Inr working \<longrightarrow>
        request ext s messages rm =
          (case transport ext (request_call s working rm) of
             Inl e \<Rightarrow> Inl e
           | Inr resp \<Rightarrow>
               if \<not> is_dynamic s then Inr resp
               else (case completion_content resp of
                       Inl e \<Rightarrow> Inl e
                     | Inr c \<Rightarrow> extract_thinking_json ext c rm)))"
proof (intro conjI impI)
  show "timeout (request_call s working rm) = Some (TIMEOUT s)"
    by (simp add: request_call_def Let_def)
  show "timeout (request_call (set_timeout t s) working rm) = Some t"
    by (simp add: request_call_def set_timeout_def Let_def)
  show "max_retries (request_call s working rm) = Some 1" if "router s = None"
    using that by (simp add: request_call_def Let_def)
  show "request ext s messages rm =
          (case transport ext (request_call s working rm) of
             Inl e \<Rightarrow> Inl e
           | Inr resp \<Rightarrow>
               if \<not> is_dynamic s then Inr resp
               else (case completion_content resp of
                       Inl e \<Rightarrow> Inl e
                     | Inr c \<Rightarrow> extract_thinking_json ext c rm))"
    if "backend s \<noteq> PYDANTIC_AI" "working_messages ext s messages rm = Inr working"
    using that by (simp add: request_def)
qed

theorem request_timeout_retry_witness:
  "timeout (request_call (set_timeout 500 (init_LLM ''claude'' None DEFAULT))
              [\<lparr>role = ''user'', content = Text ''page one''\<rparr>] (Some (ModelClass Total))) = Some 500
   \<and> max_retries (request_call (init_LLM ''claude'' None DEFAULT)
              [\<lparr>role = ''user'', content = Text ''page one''\<rparr>] (Some (ModelClass Total))) = Some 1
   \<and> request demo_externals (init_LLM ''claude'' None DEFAULT)
        [\<lparr>role = ''system'', content = Text ''extract''\<rparr>,
         \<lparr>role = ''user'', content = page_text ''page one''\<rparr>] (Some (ModelClass Total))
      = Inr (Instance [(''total'', PInt 5), (''items'', PList [PStr ''pen''])])"
  using request_timeout_retry[of "init_LLM ''claude'' None DEFAULT"
      "[\<lparr>role = ''system'', content = Text ''extract''\<rparr>,
        \<lparr>role = ''user'', content = page_text ''page one''\<rparr>]" "Some (ModelClass Total)" 500 demo_externals
      "[\<lparr>role = ''system'', content = Text ''extract''\<rparr>,
        \<lparr>role = ''user'', content = page_text ''page one''\<rparr>]"]
    request_timeout_retry[of "init_LLM ''claude'' None DEFAULT"
      "[\<lparr>role = ''user'', content = Text ''page one''\<rparr>]" "Some (ModelClass Total)" 500]
  by (simp add: init_LLM_def working_messages_def demo_externals_def plain_externals_def
      demo_transport_def request_call_def page_text_def)

text \<open>
  C8 as stated fails. The routed call of \<^verbatim>\<open>request\<close> passes no retry limit, and \<^verbatim>\<open>raw_completion\<close> passes
  neither a timeout nor a retry limit on either path.
\<close>

theorem transport_call_counterexample:
  "max_retries (request_call ((init_LLM ''claude'' None DEFAULT)\<lparr>router := Some (Router ''pool'')\<rparr>)
                  [\<lparr>role = ''user'', content = Text ''page one''\<rparr>] (Some (ModelClass Total))) = None
   \<and> timeout (raw_completion_call (init_LLM ''claude'' None DEFAULT)
                  [\<lparr>role = ''user'', content = Text ''page one''\<rparr>]) = None
   \<and> max_retries (raw_completion_call (init_LLM ''claude'' None DEFAULT)
                  [\<lparr>role = ''user'', content = Text ''page one''\<rparr>]) = None
   \<and> timeout (raw_completion_call ((init_LLM ''claude'' None DEFAULT)\<lparr>router := Some (Router ''pool'')\<rparr>)
                  [\<lparr>role = ''user'', content = Text ''page one''\<rparr>]) = None"
  by (simp add: request_call_def raw_completion_call_def init_LLM_def)

section \<open>Collecting and merging the fields\<close>

lemma map_of_add_value:
  "map_of (add_value item fv) = (map_of fv)(fst item \<mapsto> lookup_values fv (fst item) @ [snd item])"
  by (cases "map_of fv (fst item)")
     (simp_all add: add_value_def lookup_values_def update_conv' Let_def)

lemma distinct_add_value:
  "distinct (map fst fv) \<Longrightarrow> distinct (map fst (add_value item fv))"
  by (cases "map_of fv (fst item)")
     (simp_all add: add_value_def update_conv' Let_def distinct_update)

lemma keys_add_value: "fst ` set (add_value item fv) = insert (fst item) (fst ` set fv)"
  by (cases "map_of fv (fst item)")
     (auto simp add: add_value_def update_conv' Let_def dom_update)

lemma fold_add_value:
  "map_of (fold add_value items fv) k =
     (if map_of fv k = None \<and> k \<notin> fst ` set items then None
      else Some (lookup_values fv k @ map snd (filter (\<lambda>item. fst item = k) items)))"
proof (induction items arbitrary: fv)
  case Nil
  then show ?case by (auto simp: lookup_values_def)
next
  case (Cons item items)
  show ?case
    by (simp add: Cons.IH map_of_add_value lookup_values_def)
qed

lemma distinct_fold_add_value:
  "distinct (map fst fv) \<Longrightarrow> distinct (map fst (fold add_value items fv))"
  by (induction items arbitrary: fv) (simp_all add: distinct_add_value)

lemma fold_dumps:
  "fold (\<lambda>result_dict fv. fold add_value result_dict fv) dumps fv = fold add_value (concat dumps) fv"
  by (induction dumps arbitrary: fv) simp_all

lemma collect_as_fold: "collect_field_values dumps = fold add_value (concat dumps) []"
  by (simp add: collect_field_values_def fold_dumps)

lemma map_of_collect:
  "map_of (collect_field_values dumps) k =
     (if k \<in> field_names dumps then Some (contributions k dumps) else None)"
  by (simp add: collect_as_fold fold_add_value lookup_values_def field_names_def contributions_def)

lemma distinct_collect: "distinct (map fst (collect_field_values dumps))"
  by (simp add: collect_as_fold distinct_fold_add_value)

lemma merge_fields_error:
  "merge_field ext rm k vs = Inl e \<Longrightarrow> e = TypeError"
  by (auto simp: merge_field_def list_of_set_def py_set_def Let_def split: if_splits sum.splits)

lemma merge_fields_Inl:
  "merge_fields ext rm fvs acc = Inl e \<Longrightarrow> e = TypeError"
  by (induction fvs arbitrary: acc) (auto split: sum.splits dest: merge_fields_error)

lemma merge_fields_fails:
  "(k, vs) \<in> set fvs \<Longrightarrow> merge_field ext rm k vs = Inl e \<Longrightarrow> merge_fields ext rm fvs acc = Inl TypeError"
proof (induction fvs arbitrary: acc)
  case Nil
  then show ?case by simp
next
  case (Cons item rest)
  show ?case
  proof (cases "merge_field ext rm (fst item) (snd item)")
    case (Inl e')
    then show ?thesis by (simp add: merge_fields_error[OF Inl])
  next
    case (Inr v)
    with Cons.prems have "(k, vs) \<in> set rest" by auto
    from Cons.IH[OF this Cons.prems(2)] Inr show ?thesis by simp
  qed
qed


lemma merge_fields_lookup:
  assumes "distinct (map fst fvs)" and "merge_fields ext rm fvs acc = Inr m"
  shows "map_of m k =
           (case map_of fvs k of
              None \<Rightarrow> map_of acc k
            | Some vs \<Rightarrow> (case merge_field ext rm k vs of Inl e \<Rightarrow> None | Inr v \<Rightarrow> Some v))"
  using assms
proof (induction fvs arbitrary: acc)
  case Nil
  then show ?case by simp
next
  case (Cons item rest)
  from Cons.prems(2) obtain v where v: "merge_field ext rm (fst item) (snd item) = Inr v"
    and rest: "merge_fields ext rm rest (AList.update (fst item) v acc) = Inr m"
    by (auto split: sum.splits)
  from Cons.prems(1) have d: "distinct (map fst rest)" and notin: "fst item \<notin> fst ` set rest"
    by auto
  have ih: "map_of m k =
           (case map_of rest k of
              None \<Rightarrow> map_of (AList.update (fst item) v acc) k
            | Some vs \<Rightarrow> (case merge_field ext rm k vs of Inl e \<Rightarrow> None | Inr v \<Rightarrow> Some v))"
    by (rule Cons.IH[OF d rest])
  show ?case
  proof (cases "k = fst item")
    case True
    with notin have "map_of rest k = None" by (simp add: map_of_eq_None_iff)
    with ih True v show ?thesis by (cases item) (simp add: update_conv')
  next
    case False
    then have "map_of (AList.update (fst item) v acc) k = map_of acc k"
      by (simp add: update_conv')
    with ih False show ?thesis by (cases item) (simp split: option.splits)
  qed
qed


text \<open>The merged mapping, field by field.\<close>

lemma merged_mapping_lookup:
  assumes "merged_mapping ext rm dumps = Inr m"
  shows "map_of m k =
           (if k \<in> field_names dumps
            then (case merge_field ext rm k (contributions k dumps) of Inl e \<Rightarrow> None | Inr v \<Rightarrow> Some v)
            else None)"
  using merge_fields_lookup[OF distinct_collect assms[unfolded merged_mapping_def], of k]
  by (simp add: map_of_collect)

lemma merged_mapping_field:
  assumes "merged_mapping ext rm dumps = Inr m" and "k \<in> field_names dumps"
  shows "merge_field ext rm k (contributions k dumps) = Inr (the (map_of m k)) \<and> map_of m k \<noteq> None"
proof (cases "merge_field ext rm k (contributions k dumps)")
  case (Inl e)
  have "(k, contributions k dumps) \<in> set (collect_field_values dumps)"
    using assms(2) by (intro map_of_SomeD) (simp add: map_of_collect)
  from merge_fields_fails[OF this Inl] assms(1) show ?thesis by (simp add: merged_mapping_def)
next
  case (Inr v)
  with merged_mapping_lookup[OF assms(1), of k] assms(2) show ?thesis by simp
qed

section \<open>List fields and unhashable values\<close>





lemma dump_all_Instances: "dump_all (map Instance dumps) = Inr dumps"
  by (induction dumps) simp_all

lemma contributions_member:
  "d \<in> set dumps \<Longrightarrow> (k, v) \<in> set d \<Longrightarrow> v \<in> set (contributions k dumps) \<and> k \<in> field_names dumps"
  by (force simp: contributions_def field_names_def)

lemma merge_field_unhashable:
  assumes "v \<in> set vs" "\<not> hashable v" "\<not> is_list_field rm k"
  shows "merge_field ext rm k vs = Inl TypeError"
proof -
  from assms(2) have "v \<noteq> PNone" by auto
  with assms(1) have v: "v \<in> set (filter (\<lambda>v. v \<noteq> PNone) vs)" by simp
  then have ne: "filter (\<lambda>v. v \<noteq> PNone) vs \<noteq> []"
    by (metis empty_iff empty_set)
  from v assms(2) have "\<not> list_all hashable (filter (\<lambda>v. v \<noteq> PNone) vs)"
    by (auto simp: list_all_iff)
  with ne assms(3) show ?thesis
    by (simp add: merge_field_def list_of_set_def py_set_def)
qed

text \<open>
  C10. If some page gives a field that is not list-typed an unhashable value (a list or a
  dict, such as a dumped nested object), the merge raises \<^verbatim>\<open>TypeError\<close> instead of producing
  a merged mapping.
\<close>

theorem unhashable_scalar_raises:
  assumes "d \<in> set dumps" and "(k, v) \<in> set d" and "\<not> hashable v" and "\<not> is_list_field rm k"
  shows "merged_mapping ext rm dumps = Inl TypeError
         \<and> merge_results ext s (map Instance dumps) rm = Inl TypeError"
proof -
  from contributions_member[OF assms(1,2)]
  have v: "v \<in> set (contributions k dumps)" and k: "k \<in> field_names dumps" by auto
  have "(k, contributions k dumps) \<in> set (collect_field_values dumps)"
    using k by (intro map_of_SomeD) (simp add: map_of_collect)
  from merge_fields_fails[OF this merge_field_unhashable[OF v assms(3,4)]]
  have "merged_mapping ext rm dumps = Inl TypeError" by (simp add: merged_mapping_def)
  then show ?thesis by (simp add: merge_results_def dump_all_Instances)
qed

section \<open>The members of a set\<close>

lemma foldl_set_add_keys:
  "hash_key ` set (foldl set_add acc xs) = hash_key ` (set acc \<union> set xs)"
  by (induction xs arbitrary: acc) (auto simp: set_add_def)

lemma foldl_set_add_subset:
  "set (foldl set_add acc xs) \<subseteq> set acc \<union> set xs"
proof (induction xs arbitrary: acc)
  case Nil
  then show ?case by simp
next
  case (Cons x xs)
  have "set (foldl set_add (set_add acc x) xs) \<subseteq> set (set_add acc x) \<union> set xs"
    by (rule Cons.IH)
  also have "\<dots> \<subseteq> set acc \<union> set (x # xs)" by (auto simp: set_add_def)
  finally show ?case by simp
qed

lemma foldl_set_add_distinct:
  "distinct (map hash_key acc) \<Longrightarrow> distinct (map hash_key (foldl set_add acc xs))"
  by (induction xs arbitrary: acc) (auto simp: set_add_def)

lemma foldl_set_add_hd:
  "acc \<noteq> [] \<Longrightarrow> hd (foldl set_add acc xs) = hd acc \<and> foldl set_add acc xs \<noteq> []"
  by (induction xs arbitrary: acc) (auto simp: set_add_def)

lemma members_hd: "xs \<noteq> [] \<Longrightarrow> hd (foldl set_add [] xs) = hd xs \<and> foldl set_add [] xs \<noteq> []"
  using foldl_set_add_hd[of "[hd xs]" "tl xs"]
  by (cases xs) (simp_all add: set_add_def)

lemma members_length:
  "length (foldl set_add [] xs) = card (hash_key ` set xs)"
proof -
  have "length (foldl set_add [] xs) = length (map hash_key (foldl set_add [] xs))" by simp
  also have "\<dots> = card (set (map hash_key (foldl set_add [] xs)))"
    by (rule distinct_card[symmetric]) (simp add: foldl_set_add_distinct)
  also have "\<dots> = card (hash_key ` set xs)"
    using foldl_set_add_keys[of "[]" xs] by simp
  finally show ?thesis .
qed

lemma members_single:
  assumes "xs \<noteq> []" and "\<forall>v \<in> set xs. hash_key v = hash_key (hd xs)"
  shows "foldl set_add [] xs = [hd xs]"
proof -
  define key where "key = hash_key (hd xs)"
  from assms(2) have all: "\<forall>v \<in> set xs. hash_key v = key" by (simp add: key_def)
  from assms(1) have "hd xs \<in> set xs" by simp
  with all have "hash_key ` set xs = {key}" by force
  then have "length (foldl set_add [] xs) = 1" by (simp add: members_length)
  then obtain a where a: "foldl set_add [] xs = [a]"
    by (cases "foldl set_add [] xs") auto
  with members_hd[OF assms(1)] show ?thesis by simp
qed

lemma members_many:
  assumes "v \<in> set xs" "w \<in> set xs" "hash_key v \<noteq> hash_key w"
  shows "2 \<le> length (foldl set_add [] xs)"
proof -
  have "card {hash_key v, hash_key w} \<le> card (hash_key ` set xs)"
    using assms by (intro card_mono) auto
  with assms(3) show ?thesis by (simp add: members_length)
qed

lemma mset_eq_single: "mset ys = mset [a] \<Longrightarrow> ys = [a]"
  by (metis mset_single_iff mset.simps(1) mset.simps(2) mset_zero_iff single_eq_add_mset list.exhaust_sel add_mset_eq_single)

section \<open>Scalar fields\<close>

lemma merge_field_scalar:
  assumes "\<not> is_list_field rm k" and "merge_field ext rm k vs = Inr v"
  shows "(filter (\<lambda>v. v \<noteq> PNone) vs = [] \<and> v = PNone)
         \<or> (filter (\<lambda>v. v \<noteq> PNone) vs \<noteq> []
             \<and> list_all hashable (filter (\<lambda>v. v \<noteq> PNone) vs)
             \<and> v = (let dv = set_order ext (foldl set_add [] (filter (\<lambda>v. v \<noteq> PNone) vs))
                    in if length dv = 1 then hd dv else conflict_marker dv))"
  using assms
  by (auto simp: merge_field_def list_of_set_def py_set_def Let_def split: if_splits sum.splits)

text \<open>
  C1 (as amended). When the merge produces a mapping, a field that is not list-typed is
  \<^verbatim>\<open>None\<close> if no page gave it a non-null value; it is the first non-null value if all
  non-null values are equal; and if two of them differ it is a conflict marker whose
  candidates are the distinct non-null values, each once, in the iteration order of the set.
\<close>

theorem scalar_field_merge:
  assumes perm: "\<And>ms. mset (set_order ext ms) = mset ms"
    and merged: "merged_mapping ext rm dumps = Inr m"
    and field: "k \<in> field_names dumps"
    and scalar: "\<not> is_list_field rm k"
    and nn: "nn = filter (\<lambda>v. v \<noteq> PNone) (contributions k dumps)"
  shows "(nn = [] \<longrightarrow> map_of m k = Some PNone)
         \<and> (nn \<noteq> [] \<and> (\<forall>v \<in> set nn. hash_key v = hash_key (hd nn)) \<longrightarrow> map_of m k = Some (hd nn))
         \<and> ((\<exists>v \<in> set nn. \<exists>w \<in> set nn. hash_key v \<noteq> hash_key w) \<longrightarrow>
              (\<exists>cs. map_of m k = Some (conflict_marker cs)
                    \<and> 2 \<le> length cs
                    \<and> distinct (map hash_key cs)
                    \<and> set cs \<subseteq> set nn
                    \<and> hash_key ` set cs = hash_key ` set nn))"
proof -
  from merged_mapping_field[OF merged field] obtain v0
    where v0: "merge_field ext rm k (contributions k dumps) = Inr v0" and look: "map_of m k = Some v0"
    by auto
  define members where "members = foldl set_add [] nn"
  define dv where "dv = set_order ext members"
  have dv_mset: "mset dv = mset members" by (simp add: dv_def perm)
  from merge_field_scalar[OF scalar v0]
  have cases: "(nn = [] \<and> v0 = PNone)
               \<or> (nn \<noteq> [] \<and> v0 = (if length dv = 1 then hd dv else conflict_marker dv))"
    by (auto simp: nn dv_def members_def Let_def)
  have one: "map_of m k = Some (hd nn)"
    if "nn \<noteq> []" and same: "\<forall>v \<in> set nn. hash_key v = hash_key (hd nn)"
  proof -
    from members_single[OF that] have "members = [hd nn]" by (simp add: members_def)
    with dv_mset have "dv = [hd nn]" by (simp add: mset_eq_single)
    with cases that(1) look show ?thesis by simp
  qed
  have many: "\<exists>cs. map_of m k = Some (conflict_marker cs) \<and> 2 \<le> length cs
                \<and> distinct (map hash_key cs) \<and> set cs \<subseteq> set nn
                \<and> hash_key ` set cs = hash_key ` set nn"
    if "v \<in> set nn" "w \<in> set nn" "hash_key v \<noteq> hash_key w" for v w
  proof -
    from that(1) have ne: "nn \<noteq> []" by auto
    from members_many[OF that] have "2 \<le> length members" by (simp add: members_def)
    moreover have len: "length dv = length members" using dv_mset by (rule mset_eq_length)
    ultimately have l2: "2 \<le> length dv" by simp
    with cases ne look have "map_of m k = Some (conflict_marker dv)" by auto
    moreover have sets: "set dv = set members" using dv_mset by (rule mset_eq_setD)
    moreover have "set members \<subseteq> set nn"
      using foldl_set_add_subset[of "[]" nn] by (simp add: members_def)
    moreover have "hash_key ` set members = hash_key ` set nn"
      using foldl_set_add_keys[of "[]" nn] by (simp add: members_def)
    moreover have "distinct (map hash_key dv)"
    proof -
      have "mset (map hash_key dv) = mset (map hash_key members)" using dv_mset by simp
      moreover have "distinct (map hash_key members)"
        unfolding members_def by (rule foldl_set_add_distinct) simp
      ultimately show ?thesis by (metis mset_eq_imp_distinct_iff)
    qed
    ultimately have "map_of m k = Some (conflict_marker dv) \<and> 2 \<le> length dv
        \<and> distinct (map hash_key dv) \<and> set dv \<subseteq> set nn
        \<and> hash_key ` set dv = hash_key ` set nn"
      using l2 by simp
    then show ?thesis by (rule exI)
  qed
  from cases look one many show ?thesis by blast
qed

section \<open>Examples of the merge\<close>

lemma cpython_small_int_order_mset: "mset (set_order plain_externals ms) = mset ms"
  by (simp add: plain_externals_def cpython_small_int_order_def)



lemma total_pages_merged:
  "merged_mapping plain_externals Total [[(''total'', PInt 10)], [(''total'', PInt 12)]]
   = Inr [(''total'', conflict_marker [PInt 10, PInt 12])]"
  by (simp add: merged_mapping_def collect_field_values_def add_value_def merge_field_def
      is_list_field_def Total_def list_of_set_def py_set_def set_add_def
      plain_externals_def cpython_small_int_order_def)

theorem scalar_field_merge_witness:
  "\<exists>cs. map_of [(''total'', conflict_marker [PInt 10, PInt 12])] ''total'' = Some (conflict_marker cs)
        \<and> 2 \<le> length cs \<and> distinct (map hash_key cs)
        \<and> set cs \<subseteq> {PInt 10, PInt 12} \<and> hash_key ` set cs = hash_key ` {PInt 10, PInt 12}"
  using scalar_field_merge[OF cpython_small_int_order_mset total_pages_merged, of "''total''"
      "[PInt 10, PInt 12]"]
  by (auto simp: field_names_def is_list_field_def Total_def contributions_def)

text \<open>
  C1 as stated fails. The candidates are not sorted: for the values 1 and 8 the set is iterated as 8, 1. And a
  single dict value makes the merge raise.
\<close>

theorem scalar_field_merge_counterexample:
  "merged_mapping plain_externals Total [[(''total'', PInt 1)], [(''total'', PInt 8)]]
     = Inr [(''total'', conflict_marker [PInt 8, PInt 1])]
   \<and> merged_mapping plain_externals Shipment [[(''address'', PDict [(''city'', PStr ''Porto'')])]]
     = Inl TypeError"
  by (simp add: merged_mapping_def collect_field_values_def add_value_def merge_field_def
      is_list_field_def Total_def Shipment_def list_of_set_def py_set_def set_add_def
      plain_externals_def cpython_small_int_order_def)

theorem unhashable_scalar_raises_witness:
  "merged_mapping plain_externals Shipment
      [[(''address'', PNone)], [(''address'', PDict [(''city'', PStr ''Porto'')])]] = Inl TypeError
   \<and> merge_results plain_externals (init_LLM ''claude'' None DEFAULT)
      (map Instance [[(''address'', PNone)], [(''address'', PDict [(''city'', PStr ''Porto'')])]]) Shipment
      = Inl TypeError"
  using unhashable_scalar_raises[of "[(''address'', PDict [(''city'', PStr ''Porto'')])]"
      "[[(''address'', PNone)], [(''address'', PDict [(''city'', PStr ''Porto'')])]]"
      "''address''" "PDict [(''city'', PStr ''Porto'')]" Shipment plain_externals
      "init_LLM ''claude'' None DEFAULT"]
  by (simp add: is_list_field_def Shipment_def)

section \<open>The order of the pages\<close>

lemma same_up_to_order_lists [simp]:
  "same_up_to_order (PList xs) (PList ys) = (mset xs = mset ys)"
  by (simp add: same_up_to_order_def list_items_of_def)

lemma same_up_to_order_markers [simp]:
  "same_up_to_order (conflict_marker cs) (conflict_marker cs') = (hash_key ` set cs = hash_key ` set cs')"
  by (simp add: same_up_to_order_def list_items_of_def candidates_of_def conflict_marker_def)













section \<open>Resolving conflicts\<close>











lemma construct_demo: "construct demo_externals rm mapping = Inr mapping"
  by (simp add: demo_externals_def plain_externals_def)


section \<open>The page dispatcher\<close>

lemma successful_filter: "successful outcomes = map projr (filter (\<lambda>outcome. \<not> isl outcome) outcomes)"
  by (induction outcomes rule: successful.induct) simp_all

lemma successful_perm:
  "mset outcomes' = mset outcomes \<Longrightarrow> mset (successful outcomes') = mset (successful outcomes)"
  by (simp add: successful_filter)

lemma successful_empty: "successful outcomes = [] \<longleftrightarrow> (\<forall>outcome \<in> set outcomes. isl outcome)"
  by (induction outcomes rule: successful.induct) simp_all

lemma page_messages_length:
  "page_messages ext pages vision extra = Inr msgs \<Longrightarrow> length msgs = length pages"
  by (induction pages arbitrary: msgs) (auto split: sum.splits)

lemma process_page_error:
  "request ext s messages (Some (ModelClass rm)) = Inl e \<Longrightarrow>
   (\<And>c. e \<noteq> IncompleteOutputException c) \<Longrightarrow> process_page ext s messages rm = Inl e"
  by (cases e) (auto simp: process_page_def)

text \<open>
  C4. Every page gets one task. A task whose request raises anything but
  \<^verbatim>\<open>IncompleteOutputException\<close> ends with that exception, and \<^verbatim>\<open>handle\<close> drops it: if
  every task raised, \<^verbatim>\<open>handle\<close> raises \<^verbatim>\<open>ValueError\<close> with the message that no valid
  results were obtained; otherwise it returns the merge of exactly the results of the tasks
  that succeeded, in the order in which they completed. The example that follows dispatches
  three pages of which the second fails.
\<close>

theorem handle_drops_failed_pages:
  assumes msgs: "page_messages ext pages vision extra = Inr msgs"
    and outs: "outcomes = page_outcomes ext s msgs (make_all_fields_optional ext rm)"
    and order: "mset (as_completed ext outcomes) = mset outcomes"
  shows "length outcomes = length pages
         \<and> (\<forall>i < length msgs. \<forall>e.
               request ext s (msgs ! i) (Some (ModelClass (make_all_fields_optional ext rm))) = Inl e
               \<longrightarrow> (\<forall>c. e \<noteq> IncompleteOutputException c) \<longrightarrow> outcomes ! i = Inl e)
         \<and> ((\<forall>outcome \<in> set outcomes. isl outcome) \<longrightarrow>
               handle ext s pages rm vision extra
                 = Inl (ValueError ''No valid results obtained from any page''))
         \<and> ((\<exists>outcome \<in> set outcomes. \<not> isl outcome) \<longrightarrow>
               (\<exists>results. mset results = mset (successful outcomes) \<and> results \<noteq> []
                  \<and> handle ext s pages rm vision extra = merge_results ext s results rm))"
proof (intro conjI allI impI)
  show "length outcomes = length pages"
    using page_messages_length[OF msgs] by (simp add: outs page_outcomes_def)
next
  fix i e
  assume "i < length msgs"
    and "request ext s (msgs ! i) (Some (ModelClass (make_all_fields_optional ext rm))) = Inl e"
    and "\<forall>c. e \<noteq> IncompleteOutputException c"
  then show "outcomes ! i = Inl e"
    by (simp add: outs page_outcomes_def process_page_error)
next
  define results where "results = successful (as_completed ext outcomes)"
  have h: "handle ext s pages rm vision extra =
             (if results = [] then Inl (ValueError ''No valid results obtained from any page'')
              else merge_results ext s results rm)"
    by (simp add: handle_def msgs outs results_def Let_def)
  have r: "mset results = mset (successful outcomes)"
    unfolding results_def by (rule successful_perm[OF order])
  {
    assume "\<forall>outcome \<in> set outcomes. isl outcome"
    then have "successful outcomes = []" by (simp add: successful_empty)
    with r have "results = []" by simp
    with h show "handle ext s pages rm vision extra
                 = Inl (ValueError ''No valid results obtained from any page'')" by simp
  }
  {
    assume "\<exists>outcome \<in> set outcomes. \<not> isl outcome"
    then have "successful outcomes \<noteq> []" by (simp add: successful_empty)
    with r have "results \<noteq> []" by auto
    with h r show "\<exists>results. mset results = mset (successful outcomes) \<and> results \<noteq> []
                  \<and> handle ext s pages rm vision extra = merge_results ext s results rm"
      by auto
  }
qed

section \<open>Three pages, one of which fails\<close>

lemma three_page_messages:
  "page_messages ext three_pages False None =
     Inr [page_request ''page one'', page_request ''page two'', page_request ''page three'']"
  by (simp add: three_pages_def build_messages_def build_text_content_def page_text_def page_request_def)

lemma demo_page_request:
  "request demo_externals session (page_request t) (Some (ModelClass Invoice))
   = (if page_text t = page_text ''page one''
      then Inr (Instance [(''total'', PInt 5), (''items'', PList [PStr ''pen''])])
      else if page_text t = page_text ''page three''
      then Inr (Instance [(''total'', PNone), (''items'', PList [PStr ''ink''])])
      else Inl (TransportError ''connection reset''))"
  by (simp add: request_def working_messages_def request_call_def session_def init_LLM_def
      demo_externals_def plain_externals_def demo_transport_def page_request_def)

lemma demo_outcomes:
  "page_outcomes demo_externals session
     [page_request ''page one'', page_request ''page two'', page_request ''page three'']
     (make_all_fields_optional demo_externals Invoice)
   = [Inr (Instance [(''total'', PInt 5), (''items'', PList [PStr ''pen''])]),
      Inl (TransportError ''connection reset''),
      Inr (Instance [(''total'', PNone), (''items'', PList [PStr ''ink''])])]"
proof -
  have opt: "make_all_fields_optional demo_externals Invoice = Invoice"
    by (simp add: demo_externals_def plain_externals_def)
  show ?thesis
    unfolding opt page_outcomes_def
    by (simp add: process_page_def demo_page_request) (simp add: page_text_def)
qed

lemma plain_outcomes:
  "page_outcomes plain_externals session msgs rm_optional
   = map (\<lambda>messages. Inl (TransportError ''no provider'')) msgs"
  by (simp add: page_outcomes_def process_page_def request_def working_messages_def
      session_def init_LLM_def plain_externals_def)

lemma two_pages_merged:
  "merge_results demo_externals session
     [Instance [(''total'', PInt 5), (''items'', PList [PStr ''pen''])],
      Instance [(''total'', PNone), (''items'', PList [PStr ''ink''])]] Invoice
   = Inr (Instance [(''total'', PInt 5), (''items'', PList [PStr ''pen'', PStr ''ink''])])"
proof -
  have m: "merged_mapping demo_externals Invoice
     [[(''total'', PInt 5), (''items'', PList [PStr ''pen''])],
      [(''total'', PNone), (''items'', PList [PStr ''ink''])]]
    = Inr [(''total'', PInt 5), (''items'', PList [PStr ''pen'', PStr ''ink''])]"
    by (simp add: merged_mapping_def collect_field_values_def add_value_def merge_field_def
      is_list_field_def Invoice_def extend_or_append_def list_of_set_def py_set_def set_add_def
      demo_externals_def plain_externals_def cpython_small_int_order_def)
  have c: "\<not> has_conflicts demo_externals
             [(''total'', PInt 5), (''items'', PList [PStr ''pen'', PStr ''ink''])] Invoice"
    by (simp add: Invoice_def is_conflict_def has_duplicates_def demo_externals_def plain_externals_def)
  show ?thesis
    by (simp add: merge_results_def m c instantiate_def construct_demo del: has_conflicts.simps)
qed

theorem handle_drops_failed_pages_witness:
  "(\<exists>results. mset results = mset [Instance [(''total'', PInt 5), (''items'', PList [PStr ''pen''])],
                                     Instance [(''total'', PNone), (''items'', PList [PStr ''ink''])]]
       \<and> handle demo_externals session three_pages Invoice False None
           = merge_results demo_externals session results Invoice)
   \<and> handle demo_externals session three_pages Invoice False None
       = Inr (Instance [(''total'', PInt 5), (''items'', PList [PStr ''pen'', PStr ''ink''])])
   \<and> handle plain_externals session three_pages Invoice False None
       = Inl (ValueError ''No valid results obtained from any page'')"
proof (intro conjI)
  have order: "mset (as_completed demo_externals outcomes) = mset outcomes" for outcomes
    by (simp add: demo_externals_def plain_externals_def)
  from handle_drops_failed_pages[OF three_page_messages refl order, of session Invoice]
  show "\<exists>results. mset results = mset [Instance [(''total'', PInt 5), (''items'', PList [PStr ''pen''])],
                                     Instance [(''total'', PNone), (''items'', PList [PStr ''ink''])]]
       \<and> handle demo_externals session three_pages Invoice False None
           = merge_results demo_externals session results Invoice"
    unfolding demo_outcomes by simp blast
  have as_is: "as_completed demo_externals outcomes = outcomes" for outcomes
    by (simp add: demo_externals_def plain_externals_def)
  show "handle demo_externals session three_pages Invoice False None
       = Inr (Instance [(''total'', PInt 5), (''items'', PList [PStr ''pen'', PStr ''ink''])])"
    by (simp add: handle_def three_page_messages demo_outcomes as_is two_pages_merged Let_def)
  have order': "mset (as_completed plain_externals outcomes) = mset outcomes" for outcomes
    by (simp add: plain_externals_def)
  from handle_drops_failed_pages[OF three_page_messages refl order', of session Invoice]
  show "handle plain_externals session three_pages Invoice False None
       = Inl (ValueError ''No valid results obtained from any page'')"
    unfolding plain_outcomes by simp
qed

end
